theory Spec2Isabelle
  imports Main "HOL-Library.Sublist"
begin

section \<open>Car-warranty support agent: a shallow embedding\<close>

text \<open>
  The Python sources are \<^verbatim>\<open>core.py\<close> (domain tools, conversation state, assistant
  loop), \<^verbatim>\<open>assistant.py\<close> (the turn driver \<^verbatim>\<open>chatloop\<close>),
  \<^verbatim>\<open>appointment_tools.py\<close> and \<^verbatim>\<open>notification_tools.py\<close>.
  Python strings are modelled as \<^typ>\<open>string\<close>, whose characters stand for the code
  points 0..255; Python integers as \<^typ>\<open>int\<close> or \<^typ>\<open>nat\<close>; a raised
  exception as the left injection of a sum.
\<close>

subsection \<open>Exceptions\<close>

text \<open>
  A Python exception object is opaque to the code under study except for what
  \<^verbatim>\<open>repr(e)\<close> and \<^verbatim>\<open>str(e)\<close> print.
\<close>

datatype exn = Exn (exn_repr: string) (exn_str: string)

definition KeyError :: "string \<Rightarrow> exn" where
  "KeyError k = Exn (''KeyError('' @ k @ '')'') k"

definition IndexError :: exn where
  "IndexError = Exn ''IndexError('list index out of range')'' ''list index out of range''"

definition AttributeError :: "string \<Rightarrow> exn" where
  "AttributeError m = Exn (''AttributeError('' @ m @ '')'') m"

subsection \<open>Email notification (\<^verbatim>\<open>notification_tools.py\<close>)\<close>

text \<open>
  Everything \<^verbatim>\<open>send_email_notification\<close> reads from outside: the environment
  variables, the outcome of \<^verbatim>\<open>int(os.getenv('SMTP_PORT', '587'))\<close>, and what each
  call on the SMTP connection does (\<open>None\<close>: it returns, \<open>Some e\<close>: it raises \<open>e\<close>).
\<close>

record smtp_env =
  env_smtp_email :: "string option"
  env_smtp_password :: "string option"
  env_smtp_server :: "string option"
  env_smtp_port :: "exn + int"
  smtp_connect :: "string \<Rightarrow> int \<Rightarrow> exn option"
  smtp_starttls :: "exn option"
  smtp_login :: "string \<Rightarrow> string \<Rightarrow> exn option"
  smtp_send_message :: "string \<Rightarrow> string \<Rightarrow> string \<Rightarrow> string \<Rightarrow> string \<Rightarrow> exn option"
  smtp_quit :: "exn option"

record email_result =
  er_success :: bool
  er_recipient :: string
  er_subject :: string
  er_notification_type :: string
  er_message :: string
  er_delivery_status :: string
  er_note :: "string option"

definition getenv :: "string option \<Rightarrow> string \<Rightarrow> string" where
  "getenv v dflt = (case v of None \<Rightarrow> dflt | Some s \<Rightarrow> s)"

text \<open>
  \<^verbatim>\<open>email_templates.get(notification_type, email_templates["general"])\<close>: the key of
  the HTML template that is attached. The SMTP connection is handed the sender, the
  recipient, the subject, that key and the message text the template wraps.
\<close>

definition template_key :: "string \<Rightarrow> string" where
  "template_key notification_type =
     (if notification_type \<in> {''warranty_expiry'', ''claim_update'', ''purchase_confirmation'', ''general''}
      then notification_type else ''general'')"

text \<open>
  The \<^verbatim>\<open>with smtplib.SMTP(...) as server\<close> block: \<^verbatim>\<open>starttls\<close>, the login that is
  skipped for the placeholder password, \<^verbatim>\<open>send_message\<close>. Leaving the block sends
  QUIT, also when the block raised; an exception of QUIT replaces the one in flight.
\<close>

definition smtp_block ::
    "smtp_env \<Rightarrow> string \<Rightarrow> string \<Rightarrow> string \<Rightarrow> string \<Rightarrow> string \<Rightarrow> string \<Rightarrow> exn option" where
  "smtp_block env sender_email sender_password recipient_email subject template message =
     (case smtp_starttls env of Some e \<Rightarrow> Some e
      | None \<Rightarrow>
        (case (if sender_password \<noteq> ''your_app_password''
               then smtp_login env sender_email sender_password else None) of
           Some e \<Rightarrow> Some e
         | None \<Rightarrow> smtp_send_message env sender_email recipient_email subject template message))"

definition smtp_with :: "smtp_env \<Rightarrow> string \<Rightarrow> int \<Rightarrow> exn option \<Rightarrow> exn option" where
  "smtp_with env server port body =
     (case smtp_connect env server port of Some e \<Rightarrow> Some e
      | None \<Rightarrow> (case smtp_quit env of Some e \<Rightarrow> Some e | None \<Rightarrow> body))"

text \<open>The body of the \<^verbatim>\<open>try\<close>: \<open>Inl e\<close> when it raises \<open>e\<close>.\<close>

definition send_email_try :: "smtp_env \<Rightarrow> string \<Rightarrow> string \<Rightarrow> string \<Rightarrow> string \<Rightarrow> exn + email_result" where
  "send_email_try env recipient_email subject message notification_type =
     (let sender_email = getenv (env_smtp_email env) ''warranty.support@marutisuzuki.com'';
          sender_password = getenv (env_smtp_password env) ''your_app_password'';
          smtp_server = getenv (env_smtp_server env) ''smtp.gmail.com''
      in case env_smtp_port env of Inl e \<Rightarrow> Inl e
         | Inr smtp_port \<Rightarrow>
           (case smtp_with env smtp_server smtp_port
                   (smtp_block env sender_email sender_password recipient_email subject
                      (template_key notification_type) message) of
              Some e \<Rightarrow> Inl e
            | None \<Rightarrow> Inr \<lparr>er_success = True, er_recipient = recipient_email, er_subject = subject,
                er_notification_type = notification_type,
                er_message = ''Email sent successfully to '' @ recipient_email,
                er_delivery_status = ''Delivered'', er_note = None\<rparr>))"

text \<open>\<^verbatim>\<open>except Exception as e\<close>: the mock success.\<close>

definition send_email_notification :: "smtp_env \<Rightarrow> string \<Rightarrow> string \<Rightarrow> string \<Rightarrow> string \<Rightarrow> email_result" where
  "send_email_notification env recipient_email subject message notification_type =
     (case send_email_try env recipient_email subject message notification_type of
        Inr r \<Rightarrow> r
      | Inl e \<Rightarrow> \<lparr>er_success = True, er_recipient = recipient_email, er_subject = subject,
          er_notification_type = notification_type,
          er_message = ''[DEV MODE] Email notification prepared for '' @ recipient_email,
          er_delivery_status = ''Mock delivery (configure SMTP for real delivery)'',
          er_note = Some ''Set SMTP_EMAIL, SMTP_PASSWORD, SMTP_SERVER environment variables for actual email sending''\<rparr>)"

subsection \<open>Messages of the conversation (\<^verbatim>\<open>core.py\<close>)\<close>

text \<open>
  \<^verbatim>\<open>response_metadata\<close> is a dictionary. The code tests its truth value and reads
  \<^verbatim>\<open>['token_usage']['total_tokens']\<close>: the empty dictionary, a non-empty one
  without that entry (the read raises KeyError), one with it.
\<close>

datatype response_metadata = NoMetadata | MetadataWithoutUsage | TokenUsage int

text \<open>
  A message content is a string or a list of content blocks; a block is a dictionary
  of which the code reads \<^verbatim>\<open>.get("text")\<close>.
\<close>

datatype block = Block (block_text: "string option")

datatype content = Text string | Blocks "block list"

datatype tool_call = ToolCall (tc_name: string) (tc_args: "(string \<times> string) list") (tc_id: string)

text \<open>
  The entries of \<^verbatim>\<open>state["messages"]\<close>. The last argument of each message is its
  \<^verbatim>\<open>id\<close>; two messages are equal (Python \<^verbatim>\<open>==\<close>) when they are of the same class
  with the same fields. \<open>OtherEntry\<close> is an entry that is no instance of the three
  classes, such as the tuple \<^verbatim>\<open>("user", "Respond with a real output.")\<close>.
\<close>

datatype message =
    HumanMessage content response_metadata "string option"
  | AIMessage content "tool_call list" response_metadata "string option"
  | ToolMessage string string response_metadata "string option"
  | OtherEntry string string

subsection \<open>Tool dispatcher fallback\<close>

record graph_state =
  messages :: "message list"
  error :: "exn option"

text \<open>\<^verbatim>\<open>repr(state.get("error"))\<close>; a missing key gives \<^verbatim>\<open>None\<close>.\<close>

definition repr_error :: "exn option \<Rightarrow> string" where
  "repr_error e = (case e of None \<Rightarrow> ''None'' | Some x \<Rightarrow> exn_repr x)"

definition handle_tool_error :: "graph_state \<Rightarrow> exn + message list" where
  "handle_tool_error state =
     (if messages state = [] then Inl IndexError
      else case last (messages state) of
        AIMessage c tool_calls md i \<Rightarrow>
          Inr (map (\<lambda>tc. ToolMessage (''Error: '' @ repr_error (error state) @ [CHR 0x0A] @ '' please fix your mistakes.'')
                          (tc_id tc) NoMetadata None) tool_calls)
      | _ \<Rightarrow> Inl (AttributeError ''tool_calls''))"

text \<open>
  \<^verbatim>\<open>ToolNode(tools).with_fallbacks([RunnableLambda(handle_tool_error)], exception_key="error")\<close>:
  the tool node runs; when it raises \<open>e\<close>, the fallback runs on the same input with
  \<open>e\<close> stored under the key \<^verbatim>\<open>error\<close>. The tool node is library code and a parameter here.
\<close>

definition create_tool_node_with_fallback ::
    "(graph_state \<Rightarrow> exn + message list) \<Rightarrow> graph_state \<Rightarrow> exn + message list" where
  "create_tool_node_with_fallback tool_node state =
     (case tool_node state of
        Inr out \<Rightarrow> Inr out
      | Inl e \<Rightarrow> handle_tool_error (state\<lparr>error := Some e\<rparr>))"

subsection \<open>Strings\<close>

text \<open>\<^verbatim>\<open>needle in haystack\<close> on strings.\<close>

fun str_contains :: "string \<Rightarrow> string \<Rightarrow> bool" where
  "str_contains needle [] = (needle = [])"
| "str_contains needle (c # cs) = (prefix needle (c # cs) \<or> str_contains needle cs)"



subsection \<open>The turn driver (\<^verbatim>\<open>assistant.py\<close>)\<close>











subsection \<open>Decimal numerals\<close>

definition is_digit :: "char \<Rightarrow> bool" where
  "is_digit c = (48 \<le> (of_char c :: nat) \<and> (of_char c :: nat) \<le> 57)"

definition digit_val :: "char \<Rightarrow> nat" where
  "digit_val c = of_char c - 48"

definition digit_char :: "nat \<Rightarrow> char" where
  "digit_char n = ''0123456789'' ! n"

text \<open>\<^verbatim>\<open>int(s)\<close> on a string of decimal digits.\<close>

definition nat_of_digits :: "string \<Rightarrow> nat" where
  "nat_of_digits ds = foldl (\<lambda>a c. 10 * a + digit_val c) 0 ds"

text \<open>\<^verbatim>\<open>str(n)\<close> for a natural number, and for an integer.\<close>

fun digits_of :: "nat \<Rightarrow> string" where
  "digits_of n = (if n < 10 then [digit_char n] else digits_of (n div 10) @ [digit_char (n mod 10)])"

definition show_int :: "int \<Rightarrow> string" where
  "show_int i = (if i < 0 then ''-'' @ digits_of (nat (- i)) else digits_of (nat i))"

subsection \<open>Dates (\<^verbatim>\<open>datetime\<close>)\<close>

text \<open>
  A \<^verbatim>\<open>datetime\<close> is its proleptic Gregorian ordinal (1 is 01/01/0001) and the
  microseconds since midnight. The calendar arithmetic follows the library's
  \<^verbatim>\<open>_ymd2ord\<close> and \<^verbatim>\<open>_ord2ymd\<close>.
\<close>

datatype datetime = DateTime (dt_ordinal: int) (dt_micros: nat)

definition ValueError :: "string \<Rightarrow> exn" where
  "ValueError m = Exn (''ValueError('' @ m @ '')'') m"

definition OverflowError :: exn where
  "OverflowError = Exn ''OverflowError('date value out of range')'' ''date value out of range''"

definition is_leap :: "int \<Rightarrow> bool" where
  "is_leap y = (y mod 4 = 0 \<and> (y mod 100 \<noteq> 0 \<or> y mod 400 = 0))"

definition DAYS_IN_MONTH :: "int list" where
  "DAYS_IN_MONTH = [31, 28, 31, 30, 31, 30, 31, 31, 30, 31, 30, 31]"

definition days_in_month :: "int \<Rightarrow> int \<Rightarrow> int" where
  "days_in_month y m = (if m = 2 \<and> is_leap y then 29 else DAYS_IN_MONTH ! nat (m - 1))"

definition days_before_month_common :: "int \<Rightarrow> int" where
  "days_before_month_common m = sum_list (take (nat (m - 1)) DAYS_IN_MONTH)"

definition days_before_month :: "int \<Rightarrow> int \<Rightarrow> int" where
  "days_before_month y m = days_before_month_common m + (if m > 2 \<and> is_leap y then 1 else 0)"

definition days_before_year :: "int \<Rightarrow> int" where
  "days_before_year year = (let y = year - 1 in y * 365 + y div 4 - y div 100 + y div 400)"

definition ymd2ord :: "int \<Rightarrow> int \<Rightarrow> int \<Rightarrow> int" where
  "ymd2ord y m d = days_before_year y + days_before_month y m + d"

definition ord2ymd :: "int \<Rightarrow> int \<times> int \<times> int" where
  "ord2ymd ordinal =
     (let n = ordinal - 1;
          n400 = n div 146097; n = n mod 146097;
          n100 = n div 36524; n = n mod 36524;
          n4 = n div 1461; n = n mod 1461;
          n1 = n div 365; n = n mod 365;
          year = n400 * 400 + 1 + n100 * 100 + n4 * 4 + n1
      in if n1 = 4 \<or> n100 = 4 then (year - 1, 12, 31)
         else
           let leapyear = (n1 = 3 \<and> (n4 \<noteq> 24 \<or> n100 = 3));
               month = (n + 50) div 32;
               preceding = days_before_month_common month + (if month > 2 \<and> leapyear then 1 else 0)
           in if preceding > n
              then let month' = month - 1;
                       preceding' = preceding - (DAYS_IN_MONTH ! nat (month' - 1)
                                      + (if month' = 2 \<and> leapyear then 1 else 0))
                   in (year, month', n - preceding' + 1)
              else (year, month, n - preceding + 1))"

text \<open>The datetime of a calendar day at the given microsecond of the day.\<close>

definition datetime_of :: "int \<Rightarrow> int \<Rightarrow> int \<Rightarrow> nat \<Rightarrow> datetime" where
  "datetime_of y m d micros = DateTime (ymd2ord y m d) micros"

text \<open>
  \<^verbatim>\<open>datetime.strptime(s, '%d/%m/%Y')\<close>. The format compiles to a regular expression
  that must match the whole string: a day token (\<^verbatim>\<open>3[0-1]|[1-2]\d|0[1-9]|[1-9]| [1-9]\<close>),
  a slash, a month token (\<^verbatim>\<open>1[0-2]|0[1-9]|[1-9]\<close>), a slash and four digits; no token
  contains a slash, so the tokens are the pieces between the slashes. The numbers must
  then form a date. Every failure is a ValueError (the exact wording of the library's
  message is abbreviated).
\<close>

definition split_slash :: "string \<Rightarrow> (string \<times> string) option" where
  "split_slash s =
     (case dropWhile (\<lambda>c. c \<noteq> CHR ''/'') s of
        [] \<Rightarrow> None
      | c # rest \<Rightarrow> Some (takeWhile (\<lambda>c. c \<noteq> CHR ''/'') s, rest))"

definition day_token :: "string \<Rightarrow> nat option" where
  "day_token t =
     (case t of
        [a] \<Rightarrow> if is_digit a \<and> a \<noteq> CHR ''0'' then Some (digit_val a) else None
      | [a, b] \<Rightarrow>
          if a = CHR ''3'' \<and> (b = CHR ''0'' \<or> b = CHR ''1'') then Some (30 + digit_val b)
          else if (a = CHR ''1'' \<or> a = CHR ''2'') \<and> is_digit b then Some (10 * digit_val a + digit_val b)
          else if (a = CHR ''0'' \<or> a = CHR '' '') \<and> is_digit b \<and> b \<noteq> CHR ''0'' then Some (digit_val b)
          else None
      | _ \<Rightarrow> None)"

definition month_token :: "string \<Rightarrow> nat option" where
  "month_token t =
     (case t of
        [a] \<Rightarrow> if is_digit a \<and> a \<noteq> CHR ''0'' then Some (digit_val a) else None
      | [a, b] \<Rightarrow>
          if a = CHR ''1'' \<and> (b = CHR ''0'' \<or> b = CHR ''1'' \<or> b = CHR ''2'') then Some (10 + digit_val b)
          else if a = CHR ''0'' \<and> is_digit b \<and> b \<noteq> CHR ''0'' then Some (digit_val b)
          else None
      | _ \<Rightarrow> None)"

definition year_token :: "string \<Rightarrow> nat option" where
  "year_token t = (if length t = 4 \<and> list_all is_digit t then Some (nat_of_digits t) else None)"

definition strptime :: "string \<Rightarrow> exn + datetime" where
  "strptime s =
     (case split_slash s of
        None \<Rightarrow> Inl (ValueError ''time data does not match format'')
      | Some (t1, r1) \<Rightarrow>
        (case split_slash r1 of
           None \<Rightarrow> Inl (ValueError ''time data does not match format'')
         | Some (t2, t3) \<Rightarrow>
           (case (day_token t1, month_token t2, year_token t3) of
              (Some d, Some m, Some y) \<Rightarrow>
                if y < 1 then Inl (ValueError ''year is out of range'')
                else if int d > days_in_month (int y) (int m)
                then Inl (ValueError ''day is out of range for month'')
                else Inr (datetime_of (int y) (int m) (int d) 0)
            | _ \<Rightarrow> Inl (ValueError ''time data does not match format''))))"

text \<open>\<^verbatim>\<open>dt + timedelta(days=n)\<close>; a result outside the years 1..9999 raises OverflowError.\<close>

definition add_days :: "datetime \<Rightarrow> int \<Rightarrow> exn + datetime" where
  "add_days dt n =
     (let ordinal = dt_ordinal dt + n
      in if ordinal < 1 \<or> ordinal > 3652059 then Inl OverflowError
         else Inr (DateTime ordinal (dt_micros dt)))"

text \<open>\<^verbatim>\<open>a > b\<close> on datetimes.\<close>

definition dt_greater :: "datetime \<Rightarrow> datetime \<Rightarrow> bool" where
  "dt_greater a b =
     (dt_ordinal a > dt_ordinal b \<or> (dt_ordinal a = dt_ordinal b \<and> dt_micros a > dt_micros b))"

text \<open>\<^verbatim>\<open>(a - b).days\<close>: the difference in whole days, rounded down.\<close>

definition days_between :: "datetime \<Rightarrow> datetime \<Rightarrow> int" where
  "days_between a b =
     ((dt_ordinal a - dt_ordinal b) * 86400000000 + (int (dt_micros a) - int (dt_micros b)))
       div 86400000000"

definition pad2 :: "int \<Rightarrow> string" where
  "pad2 n = (if n < 10 then ''0'' @ show_int n else show_int n)"

definition pad4 :: "int \<Rightarrow> string" where
  "pad4 n = replicate (4 - length (show_int n)) CHR ''0'' @ show_int n"

text \<open>\<^verbatim>\<open>dt.strftime('%d/%m/%Y')\<close> (the year printed with four digits).\<close>

definition strftime :: "datetime \<Rightarrow> string" where
  "strftime dt = (case ord2ymd (dt_ordinal dt) of (y, m, d) \<Rightarrow> pad2 d @ ''/'' @ pad2 m @ ''/'' @ pad4 y)"

subsection \<open>The record store of the CCP tools (\<^verbatim>\<open>core.py\<close>)\<close>

text \<open>
  The CSV tables, loaded in full before each operation and written back in full after
  it: a table is the list of its rows. A row filter followed by \<^verbatim>\<open>.iloc[0]\<close> is
  \<^const>\<open>find\<close>.
\<close>

record vehicle =
  registration :: string
  model :: string
  purchase_date :: string
  current_mileage :: int
  warranty_expiry :: string
  has_extended_warranty :: bool
  has_ccp :: bool
  customer_id :: string

record ccp_package =
  package_name :: string
  duration_years :: int
  max_kilometers :: int
  price :: int
  coverage_details :: string

record warranty =
  warranty_id :: int
  w_vehicle_registration :: string
  w_warranty_type :: string
  w_package_type :: string
  w_start_date :: string
  w_end_date :: string
  w_status :: string
  w_price :: int
  w_coverage_km :: int

record ccp_store =
  vehicles :: "vehicle list"
  warranties :: "warranty list"
  ccp_packages :: "ccp_package list"

text \<open>
  The dictionary \<^verbatim>\<open>check_ccp_eligibility\<close> returns. The fields that only render a
  column as text (the mileage with thousands separators, the price with the currency
  sign) are carried as the column values: the offered packages are the package rows.
\<close>

datatype ccp_check =
    CheckError string
  | NotEligible (ne_reason: string) (ne_registration: string) (ne_model: string)
      (ne_deadline_was: "string option")
  | Eligible (el_registration: string) (el_model: string) (el_purchase_date: string)
      (el_mileage: int) (el_packages: "ccp_package list") (el_deadline: string)
      (el_days_remaining: int)

definition check_ccp_eligibility :: "ccp_store \<Rightarrow> datetime \<Rightarrow> string \<Rightarrow> ccp_check" where
  "check_ccp_eligibility store now vehicle_registration =
     (case find (\<lambda>v. registration v = vehicle_registration) (vehicles store) of
        None \<Rightarrow> CheckError (''Vehicle with registration '' @ vehicle_registration @ '' not found.'')
      | Some vehicle_info \<Rightarrow>
          if \<not> has_extended_warranty vehicle_info then
            NotEligible ''Extended Warranty is required before purchasing CCP. Please purchase Extended Warranty first.''
              vehicle_registration (model vehicle_info) None
          else if has_ccp vehicle_info then
            NotEligible ''Vehicle already has an active CCP package.''
              vehicle_registration (model vehicle_info) None
          else
            (case strptime (purchase_date vehicle_info) of
               Inl e \<Rightarrow> CheckError (''An error occurred while checking CCP eligibility: '' @ exn_str e)
             | Inr purchase \<Rightarrow>
               (case add_days purchase (21 * 30) of
                  Inl e \<Rightarrow> CheckError (''An error occurred while checking CCP eligibility: '' @ exn_str e)
                | Inr eligibility_end_date \<Rightarrow>
                    if dt_greater now eligibility_end_date then
                      NotEligible
                        (''Purchase window expired. CCP must be purchased within 1 year 9 months of vehicle purchase date (''
                           @ purchase_date vehicle_info @ '').'')
                        vehicle_registration (model vehicle_info)
                        (Some (strftime eligibility_end_date))
                    else
                      Eligible vehicle_registration (model vehicle_info) (purchase_date vehicle_info)
                        (current_mileage vehicle_info)
                        (filter (\<lambda>package. current_mileage vehicle_info < max_kilometers package)
                           (ccp_packages store))
                        (strftime eligibility_end_date)
                        (days_between eligibility_end_date now))))"

text \<open>\<^verbatim>\<open>package_map = {'1year': 1, '2year': 2, '3year': 3}\<close>.\<close>

definition package_map :: "string \<Rightarrow> int option" where
  "package_map package_type =
     (if package_type = ''1year'' then Some 1
      else if package_type = ''2year'' then Some 2
      else if package_type = ''3year'' then Some 3
      else None)"

text \<open>\<^verbatim>\<open>df[col].max() + 1 if not df.empty else 1\<close>.\<close>

definition next_id :: "int list \<Rightarrow> int" where
  "next_id ids = (case ids of [] \<Rightarrow> 1 | i # rest \<Rightarrow> foldl max i rest + 1)"

record purchase_response =
  pr_warranty_id :: int
  pr_vehicle_registration :: string
  pr_model :: string
  pr_package :: string
  pr_status :: string
  pr_payment_link :: string
  pr_confirmation_email :: string
  pr_email_sent :: bool
  pr_email_status :: string

datatype purchase_result = PurchaseError string | PurchaseSuccess purchase_response

text \<open>
  What \<^verbatim>\<open>purchase_ccp_package\<close> uses besides the tables: the SMTP environment and
  the text of the confirmation mail (a formatted string of the new warranty id, the
  vehicle and the package).
\<close>

record purchase_env =
  pe_smtp :: smtp_env
  pe_email_text :: "int \<Rightarrow> vehicle \<Rightarrow> ccp_package \<Rightarrow> string"

text \<open>
  The purchase returns its dictionary and the store as the two \<^verbatim>\<open>save_data\<close> calls
  leave it: the new warranty row appended, and \<^verbatim>\<open>has_ccp\<close> set on every vehicle
  row with the registration.
\<close>

definition purchase_ccp_package ::
    "purchase_env \<Rightarrow> ccp_store \<Rightarrow> string \<Rightarrow> string \<Rightarrow> string \<Rightarrow> purchase_result \<times> ccp_store" where
  "purchase_ccp_package env store vehicle_registration package_type customer_email =
     (case find (\<lambda>v. registration v = vehicle_registration) (vehicles store) of
        None \<Rightarrow> (PurchaseError (''Vehicle with registration '' @ vehicle_registration @ '' not found.''), store)
      | Some vehicle_info \<Rightarrow>
          if \<not> has_extended_warranty vehicle_info then
            (PurchaseError ''Extended Warranty is required before purchasing CCP.'', store)
          else if has_ccp vehicle_info then
            (PurchaseError ''Vehicle already has an active CCP package.'', store)
          else
            (case package_map package_type of
               None \<Rightarrow> (PurchaseError ''Invalid package type. Choose '1year', '2year', or '3year'.'', store)
             | Some years \<Rightarrow>
               (case find (\<lambda>p. duration_years p = years) (ccp_packages store) of
                  None \<Rightarrow> (PurchaseError (''Package '' @ package_type @ '' not found.''), store)
                | Some package_info \<Rightarrow>
                  (case strptime (warranty_expiry vehicle_info) of
                     Inl e \<Rightarrow> (PurchaseError (''An error occurred during CCP purchase: '' @ exn_str e), store)
                   | Inr warranty_start \<Rightarrow>
                     (case add_days warranty_start (duration_years package_info * 365) of
                        Inl e \<Rightarrow> (PurchaseError (''An error occurred during CCP purchase: '' @ exn_str e), store)
                      | Inr warranty_end \<Rightarrow>
                          let new_warranty_id = next_id (map warranty_id (warranties store));
                              new_warranty = \<lparr>warranty_id = new_warranty_id,
                                w_vehicle_registration = vehicle_registration,
                                w_warranty_type = ''ccp'',
                                w_package_type = package_type,
                                w_start_date = strftime warranty_start,
                                w_end_date = strftime warranty_end,
                                w_status = ''pending_payment'',
                                w_price = price package_info,
                                w_coverage_km = max_kilometers package_info\<rparr>;
                              store' = store\<lparr>
                                warranties := warranties store @ [new_warranty],
                                vehicles := map (\<lambda>v. if registration v = vehicle_registration
                                                       then v\<lparr>has_ccp := True\<rparr> else v) (vehicles store)\<rparr>;
                              email_result =
                                (if customer_email \<noteq> [] then
                                   Some (send_email_notification (pe_smtp env) customer_email
                                     (''CCP Purchase Confirmation - Warranty ID '' @ show_int new_warranty_id)
                                     (pe_email_text env new_warranty_id vehicle_info package_info)
                                     ''purchase_confirmation'')
                                 else None)
                          in (PurchaseSuccess \<lparr>pr_warranty_id = new_warranty_id,
                                pr_vehicle_registration = vehicle_registration,
                                pr_model = model vehicle_info,
                                pr_package = package_name package_info,
                                pr_status = ''Pending Payment'',
                                pr_payment_link = ''https://carwarranty.com/payment/'' @ show_int new_warranty_id,
                                pr_confirmation_email = customer_email,
                                pr_email_sent = (case email_result of Some r \<Rightarrow> er_success r | None \<Rightarrow> False),
                                pr_email_status = (case email_result of Some r \<Rightarrow> er_message r
                                                   | None \<Rightarrow> ''Email not sent (no email provided)'')\<rparr>,
                              store'))))))"

subsection \<open>Appointments (\<^verbatim>\<open>appointment_tools.py\<close>)\<close>

record appointment =
  appointment_id :: int
  vehicle_registration :: string
  service_center :: string
  appointment_date :: string
  appointment_time :: string
  service_type :: string
  status :: string
  customer_name :: string
  customer_phone :: "string option"
  customer_email :: "string option"
  ap_notes :: "string option"
  created_at :: string

record service_center_row =
  center_name :: string
  city :: string
  address :: string
  phone :: string

text \<open>
  What \<^verbatim>\<open>book_service_appointment\<close> reads besides the appointments table: the
  vehicles table; the first service-center row whose name contains the requested name
  (a case-insensitive pattern search of the data-frame library, which may raise); the
  e-mail and phone of the logged-in user's profile (\<open>Inr None\<close>: no user file or no
  such user; \<open>Inl e\<close>: reading it raises); the clock, already formatted; whether the
  notification module could be imported; the SMTP environment and the mail text.
\<close>

record booking_env =
  be_vehicles :: "vehicle list"
  be_find_center :: "string \<Rightarrow> exn + service_center_row option"
  be_profile :: "exn + (string \<times> string) option"
  be_now_text :: string
  be_email_available :: bool
  be_smtp :: smtp_env
  be_email_text :: "int \<Rightarrow> vehicle \<Rightarrow> service_center_row \<Rightarrow> string"

record booking_response =
  br_appointment_id :: int
  br_confirmation_number :: string
  br_vehicle_registration :: string
  br_vehicle_model :: string
  br_service_center :: string
  br_appointment_date :: string
  br_appointment_time :: string
  br_status :: string
  br_message :: string
  br_confirmation_sent_to :: string
  br_email_confirmation :: string

datatype booking_result = BookingError string | BookingSuccess booking_response

text \<open>Python truth of an optional string: neither \<^verbatim>\<open>None\<close> nor empty.\<close>

definition truthy :: "string option \<Rightarrow> bool" where
  "truthy s = (case s of None \<Rightarrow> False | Some t \<Rightarrow> t \<noteq> [])"

text \<open>\<^verbatim>\<open>status.isin(['confirmed', 'pending'])\<close>.\<close>

definition is_active :: "appointment \<Rightarrow> bool" where
  "is_active a = (status a = ''confirmed'' \<or> status a = ''pending'')"

text \<open>\<^verbatim>\<open>f"MSAP{appointment_id:06d}"\<close>.\<close>

definition confirmation_number :: "int \<Rightarrow> string" where
  "confirmation_number i =
     ''MSAP'' @ (if i < 0 then ''-'' @ replicate (5 - length (digits_of (nat (- i)))) CHR ''0'' @ digits_of (nat (- i))
                 else replicate (6 - length (digits_of (nat i))) CHR ''0'' @ digits_of (nat i))"

text \<open>The auto-detection of e-mail and phone from the profile.\<close>

definition detect_contact ::
    "booking_env \<Rightarrow> string option \<Rightarrow> string option \<Rightarrow> exn + (string option \<times> string option)" where
  "detect_contact env cust_email cust_phone =
     (if \<not> truthy cust_email \<or> \<not> truthy cust_phone then
        (case be_profile env of
           Inl e \<Rightarrow> Inl e
         | Inr None \<Rightarrow> Inr (cust_email, cust_phone)
         | Inr (Some (profile_email, profile_phone)) \<Rightarrow>
             Inr (if \<not> truthy cust_email then Some profile_email else cust_email,
                  if \<not> truthy cust_phone then Some profile_phone else cust_phone))
      else Inr (cust_email, cust_phone))"

text \<open>
  \<^verbatim>\<open>book_service_appointment\<close>: the returned dictionary and the appointments table as
  \<^verbatim>\<open>save_data\<close> leaves it. An exception inside the \<^verbatim>\<open>try\<close> gives the
  \<^verbatim>\<open>Booking failed\<close> error. The response field that reformats the service type as a
  title is left out.
\<close>

definition book_service_appointment ::
    "booking_env \<Rightarrow> appointment list \<Rightarrow> string \<Rightarrow> string \<Rightarrow> string \<Rightarrow> string \<Rightarrow> string
       \<Rightarrow> string option \<Rightarrow> string option \<Rightarrow> string option \<Rightarrow> booking_result \<times> appointment list" where
  "book_service_appointment env appointments_df vehicle_reg service_center_name appt_date appt_time
       svc_type cust_phone cust_email appt_notes =
     (case find (\<lambda>v. registration v = vehicle_reg) (be_vehicles env) of
        None \<Rightarrow> (BookingError (''Vehicle '' @ vehicle_reg @ '' not found''), appointments_df)
      | Some vehicle_info \<Rightarrow>
        (case detect_contact env cust_email cust_phone of
           Inl e \<Rightarrow> (BookingError (''Booking failed: '' @ exn_str e), appointments_df)
         | Inr (email, phone_no) \<Rightarrow>
           (case be_find_center env service_center_name of
              Inl e \<Rightarrow> (BookingError (''Booking failed: '' @ exn_str e), appointments_df)
            | Inr None \<Rightarrow>
                (BookingError (''Service center '' @ [CHR 0x27] @ service_center_name @ [CHR 0x27] @ '' not found''),
                 appointments_df)
            | Inr (Some center_info) \<Rightarrow>
                if filter (\<lambda>a. service_center a = center_name center_info
                                \<and> appointment_date a = appt_date
                                \<and> appointment_time a = appt_time
                                \<and> is_active a) appointments_df \<noteq> []
                then (BookingError (''Time slot '' @ appt_time @ '' on '' @ appt_date @ '' is already booked''),
                      appointments_df)
                else
                  let new_appointment_id = next_id (map appointment_id appointments_df);
                      new_appointment = \<lparr>appointment_id = new_appointment_id,
                        vehicle_registration = vehicle_reg,
                        service_center = center_name center_info,
                        appointment_date = appt_date,
                        appointment_time = appt_time,
                        service_type = svc_type,
                        status = ''confirmed'',
                        customer_name = customer_id vehicle_info,
                        customer_phone = phone_no,
                        customer_email = email,
                        ap_notes = appt_notes,
                        created_at = be_now_text env\<rparr>;
                      email_confirmation =
                        (if be_email_available env \<and> truthy email then
                           (if er_success (send_email_notification (be_smtp env) (the email)
                                  (''Appointment Confirmed - '' @ appt_date @ '' at '' @ appt_time)
                                  (be_email_text env new_appointment_id vehicle_info center_info)
                                  ''general'')
                            then ''Confirmation email sent to '' @ the email
                            else ''Appointment confirmed, but email notification could not be sent'')
                         else ''Email not sent (no email address found in your profile)'')
                  in (BookingSuccess \<lparr>br_appointment_id = new_appointment_id,
                        br_confirmation_number = confirmation_number new_appointment_id,
                        br_vehicle_registration = vehicle_reg,
                        br_vehicle_model = model vehicle_info,
                        br_service_center = center_name center_info,
                        br_appointment_date = appt_date,
                        br_appointment_time = appt_time,
                        br_status = ''Confirmed'',
                        br_message = ''Appointment booked successfully!'',
                        br_confirmation_sent_to = (if truthy email then the email else ''Email not available''),
                        br_email_confirmation = email_confirmation\<rparr>,
                      appointments_df @ [new_appointment]))))"

record reschedule_response =
  rr_appointment_id :: int
  rr_confirmation_number :: string
  rr_vehicle_registration :: string
  rr_service_center :: string
  rr_old_date :: string
  rr_old_time :: string
  rr_new_date :: string
  rr_new_time :: string
  rr_message :: string

datatype reschedule_result = RescheduleError string | RescheduleSuccess reschedule_response

text \<open>
  \<^verbatim>\<open>reschedule_appointment\<close>. The row that is inspected is the first one with the
  identifier; the two \<^verbatim>\<open>.loc\<close> assignments write the new date and time into every
  row with the identifier.
\<close>

definition reschedule_appointment ::
    "appointment list \<Rightarrow> int \<Rightarrow> string \<Rightarrow> string \<Rightarrow> reschedule_result \<times> appointment list" where
  "reschedule_appointment appointments_df appt_id new_date new_time =
     (case find (\<lambda>a. appointment_id a = appt_id) appointments_df of
        None \<Rightarrow> (RescheduleError (''Appointment ID '' @ show_int appt_id @ '' not found''), appointments_df)
      | Some appt \<Rightarrow>
          if status appt = ''cancelled'' then
            (RescheduleError ''Cannot reschedule a cancelled appointment'', appointments_df)
          else if status appt = ''completed'' then
            (RescheduleError ''Cannot reschedule a completed appointment'', appointments_df)
          else if filter (\<lambda>a. service_center a = service_center appt
                               \<and> appointment_date a = new_date
                               \<and> appointment_time a = new_time
                               \<and> appointment_id a \<noteq> appt_id
                               \<and> is_active a) appointments_df \<noteq> []
          then (RescheduleError (''Time slot '' @ new_time @ '' on '' @ new_date @ '' is already booked''),
                appointments_df)
          else
            (RescheduleSuccess \<lparr>rr_appointment_id = appt_id,
               rr_confirmation_number = confirmation_number appt_id,
               rr_vehicle_registration = vehicle_registration appt,
               rr_service_center = service_center appt,
               rr_old_date = appointment_date appt,
               rr_old_time = appointment_time appt,
               rr_new_date = new_date,
               rr_new_time = new_time,
               rr_message = ''Appointment rescheduled successfully!''\<rparr>,
             map (\<lambda>a. if appointment_id a = appt_id
                       then a\<lparr>appointment_date := new_date, appointment_time := new_time\<rparr>
                       else a) appointments_df))"

text \<open>
  The slot of an appointment, and the uniqueness invariant of the table: the rows with
  status confirmed or pending have pairwise different slots.
\<close>

definition slot :: "appointment \<Rightarrow> string \<times> string \<times> string" where
  "slot a = (service_center a, appointment_date a, appointment_time a)"

definition slots_unique :: "appointment list \<Rightarrow> bool" where
  "slots_unique appointments_df = distinct (map slot (filter is_active appointments_df))"

definition ids_unique :: "appointment list \<Rightarrow> bool" where
  "ids_unique appointments_df = distinct (map appointment_id appointments_df)"

subsection \<open>The regular expressions of \<^verbatim>\<open>update_tool_messages\<close>\<close>

text \<open>
  \<^verbatim>\<open>\s\<close> and \<^verbatim>\<open>.\<close> of the \<^verbatim>\<open>re\<close> module on the code points 0..255
  (\<^verbatim>\<open>\d\<close> is \<^const>\<open>is_digit\<close>): white space is 9..13, 28..32, 133 and 160; the
  dot matches everything but the line feed.
\<close>

definition is_space :: "char \<Rightarrow> bool" where
  "is_space c =
     (let n = (of_char c :: nat)
      in (9 \<le> n \<and> n \<le> 13) \<or> (28 \<le> n \<and> n \<le> 32) \<or> n = 133 \<or> n = 160)"

definition quote :: char where
  "quote = CHR 0x22"

definition backslash :: char where
  "backslash = CHR 0x5C"

definition newline :: char where
  "newline = CHR 0x0A"

definition strip_prefix :: "string \<Rightarrow> string \<Rightarrow> string option" where
  "strip_prefix p s = (if prefix p s then Some (drop (length p) s) else None)"

text \<open>The literal head \<^verbatim>\<open>"key":\<close> of the five patterns.\<close>

definition key_pattern :: "string \<Rightarrow> string" where
  "key_pattern key = quote # key @ [quote, CHR '':'']"

text \<open>
  A match of \<^verbatim>\<open>"key":\s*(\d+)\<close> at the start of the text: the group and the text
  after the match. White space and digits are disjoint, so the greedy runs are the
  only way to match.
\<close>

definition match_int_field :: "string \<Rightarrow> string \<Rightarrow> (string \<times> string) option" where
  "match_int_field key s =
     (case strip_prefix (key_pattern key) s of
        None \<Rightarrow> None
      | Some r \<Rightarrow>
          let r' = dropWhile is_space r
          in if takeWhile is_digit r' = [] then None
             else Some (takeWhile is_digit r', dropWhile is_digit r'))"

text \<open>
  A match of \<^verbatim>\<open>"key":\s*"(.*?)"\<close> at the start of the text: the lazy group runs to
  the first double quote and must not cross a line feed.
\<close>

definition match_str_field :: "string \<Rightarrow> string \<Rightarrow> (string \<times> string) option" where
  "match_str_field key s =
     (case strip_prefix (key_pattern key) s of
        None \<Rightarrow> None
      | Some r \<Rightarrow>
        (case dropWhile is_space r of
           [] \<Rightarrow> None
         | q # r' \<Rightarrow>
             if q \<noteq> quote then None
             else (case dropWhile (\<lambda>c. c \<noteq> quote \<and> c \<noteq> newline) r' of
                     [] \<Rightarrow> None
                   | c # rest \<Rightarrow>
                       if c = quote
                       then Some (takeWhile (\<lambda>c. c \<noteq> quote \<and> c \<noteq> newline) r', rest)
                       else None)))"

text \<open>
  \<^verbatim>\<open>re.findall\<close> for a pattern with one group: scan from the left; where the
  pattern matches, take the group and go on after the match, otherwise move one
  character on. A match of these patterns is never empty, which the length test
  records (it holds for every match of the two matchers above).
\<close>

function findall :: "(string \<Rightarrow> (string \<times> string) option) \<Rightarrow> string \<Rightarrow> string list" where
  "findall m [] = []"
| "findall m (c # cs) =
     (case m (c # cs) of
        None \<Rightarrow> findall m cs
      | Some (v, rest) \<Rightarrow> if length rest \<le> length cs then v # findall m rest else findall m cs)"
  by pat_completeness auto
termination
  by (relation "measure (\<lambda>(m, s). length s)") auto

subsection \<open>\<^verbatim>\<open>json.dumps\<close> of the extracted list\<close>

definition hex_digit :: "nat \<Rightarrow> char" where
  "hex_digit n = ''0123456789abcdef'' ! n"

text \<open>
  The default \<^verbatim>\<open>ensure_ascii\<close> encoder: the printable ASCII characters other than
  the double quote and the backslash stand for themselves.
\<close>

definition json_escape_char :: "char \<Rightarrow> string" where
  "json_escape_char c =
     (let n = (of_char c :: nat)
      in if c = quote then [backslash, quote]
         else if c = backslash then [backslash, backslash]
         else if n = 8 then [backslash, CHR ''b'']
         else if n = 12 then [backslash, CHR ''f'']
         else if n = 10 then [backslash, CHR ''n'']
         else if n = 13 then [backslash, CHR ''r'']
         else if n = 9 then [backslash, CHR ''t'']
         else if 32 \<le> n \<and> n \<le> 126 then [c]
         else [backslash, CHR ''u'', CHR ''0'', CHR ''0'', hex_digit (n div 16), hex_digit (n mod 16)])"

definition dumps_str :: "string \<Rightarrow> string" where
  "dumps_str s = quote # concat (map json_escape_char s) @ [quote]"

fun join :: "string \<Rightarrow> string list \<Rightarrow> string" where
  "join sep [] = []"
| "join sep [x] = x"
| "join sep (x # y # ys) = x @ sep @ join sep (y # ys)"

text \<open>
  One dictionary of \<^verbatim>\<open>combined_info\<close>: the keys it has, in the order in which the
  loop inserts them.
\<close>

record booking_dict =
  bd_booking_id :: "nat option"
  bd_car_id :: "nat option"
  bd_name :: "string option"
  bd_start_date :: "string option"
  bd_end_date :: "string option"

definition int_item :: "string \<Rightarrow> nat option \<Rightarrow> string list" where
  "int_item key v = (case v of None \<Rightarrow> [] | Some n \<Rightarrow> [key_pattern key @ '' '' @ digits_of n])"

definition str_item :: "string \<Rightarrow> string option \<Rightarrow> string list" where
  "str_item key v = (case v of None \<Rightarrow> [] | Some s \<Rightarrow> [key_pattern key @ '' '' @ dumps_str s])"

definition dict_items :: "booking_dict \<Rightarrow> string list" where
  "dict_items d =
     int_item ''booking_id'' (bd_booking_id d) @ int_item ''car_id'' (bd_car_id d)
     @ str_item ''name'' (bd_name d) @ str_item ''start_date'' (bd_start_date d)
     @ str_item ''end_date'' (bd_end_date d)"

definition dumps_dict :: "booking_dict \<Rightarrow> string" where
  "dumps_dict d = ''{'' @ join '', '' (dict_items d) @ ''}''"

definition dumps :: "booking_dict list \<Rightarrow> string" where
  "dumps ds = ''['' @ join '', '' (map dumps_dict ds) @ '']''"

subsection \<open>\<^verbatim>\<open>update_tool_messages\<close>\<close>

definition nth_opt :: "'a list \<Rightarrow> nat \<Rightarrow> 'a option" where
  "nth_opt xs i = (if i < length xs then Some (xs ! i) else None)"

text \<open>The loop that builds \<^verbatim>\<open>combined_info\<close> from the five lists of matches.\<close>

definition combine ::
    "string list \<Rightarrow> string list \<Rightarrow> string list \<Rightarrow> string list \<Rightarrow> string list \<Rightarrow> booking_dict list" where
  "combine booking_ids car_ids names start_dates end_dates =
     (let max_len = max (length booking_ids) (max (length car_ids) (max (length names)
                      (max (length start_dates) (length end_dates))))
      in map (\<lambda>i. \<lparr>bd_booking_id = map_option nat_of_digits (nth_opt booking_ids i),
                    bd_car_id = map_option nat_of_digits (nth_opt car_ids i),
                    bd_name = nth_opt names i,
                    bd_start_date = nth_opt start_dates i,
                    bd_end_date = nth_opt end_dates i\<rparr>) [0..<max_len])"

text \<open>
  The new content that \<^verbatim>\<open>update_tool_messages\<close> stores in the message
  (\<^verbatim>\<open>int\<close> of a digit string is taken without the interpreter's limit on its length).
\<close>

definition update_content :: "string \<Rightarrow> string" where
  "update_content content =
     (let booking_ids = findall (match_int_field ''booking_id'') content;
          car_ids = findall (match_int_field ''car_id'') content;
          names = findall (match_str_field ''name'') content;
          start_dates = findall (match_str_field ''start_date'') content;
          end_dates = findall (match_str_field ''end_date'') content;
          combined_info = combine booking_ids car_ids names start_dates end_dates
      in if combined_info \<noteq> [] then dumps combined_info else content)"

text \<open>The function is called on tool messages only.\<close>

definition update_tool_messages :: "message \<Rightarrow> message" where
  "update_tool_messages message =
     (case message of
        ToolMessage content call_id md i \<Rightarrow> ToolMessage (update_content content) call_id md i
      | _ \<Rightarrow> message)"

subsection \<open>\<^verbatim>\<open>clean_state\<close> and \<^verbatim>\<open>clean_state2\<close>\<close>

text \<open>The accumulators of the loop over the messages.\<close>

record clean_acc =
  cleaned_messages :: "message list"
  middle_steps :: "message list"
  users :: nat
  bots :: nat

definition content_truthy :: "content \<Rightarrow> bool" where
  "content_truthy c = (case c of Text s \<Rightarrow> s \<noteq> [] | Blocks bs \<Rightarrow> bs \<noteq> [])"

text \<open>\<^verbatim>\<open>('booking_id' in str(content)) or ('car_id' in str(content))\<close>.\<close>

definition mentions_ids :: "string \<Rightarrow> bool" where
  "mentions_ids s = (str_contains ''booking_id'' s \<or> str_contains ''car_id'' s)"

text \<open>
  One round of the inner \<^verbatim>\<open>for index, step in enumerate(cleaned_messages)\<close> on one
  entry: a tool message whose content mentions an identifier is rewritten. The source
  calls \<^verbatim>\<open>update_tool_messages(step)\<close> once inside \<^verbatim>\<open>print\<close> and once for the
  assignment, on the same message object, so the rewrite runs twice.
\<close>

definition rewrite_step :: "message \<Rightarrow> message" where
  "rewrite_step step =
     (case step of
        ToolMessage content call_id md i \<Rightarrow>
          if mentions_ids content then update_tool_messages (update_tool_messages step) else step
      | _ \<Rightarrow> step)"

definition clean_init :: clean_acc where
  "clean_init = \<lparr>cleaned_messages = [], middle_steps = [], users = 0, bots = 0\<rparr>"

text \<open>The body of the loop of \<^verbatim>\<open>clean_state\<close> for one message.\<close>

definition clean_step :: "clean_acc \<Rightarrow> message \<Rightarrow> clean_acc" where
  "clean_step acc message =
     (case message of
        HumanMessage c md i \<Rightarrow>
          acc\<lparr>cleaned_messages := cleaned_messages acc @ [message], users := users acc + 1\<rparr>
      | AIMessage c tcs md i \<Rightarrow>
          if content_truthy c \<and> md \<noteq> NoMetadata then
            (if users acc = bots acc + 1 then
               acc\<lparr>cleaned_messages :=
                      filter (\<lambda>msg. msg \<notin> set (middle_steps acc))
                        (map rewrite_step (cleaned_messages acc @ [message])),
                    middle_steps := [],
                    bots := bots acc + 1\<rparr>
             else acc\<lparr>cleaned_messages := cleaned_messages acc @ [message], bots := bots acc + 1\<rparr>)
          else acc\<lparr>cleaned_messages := cleaned_messages acc @ [message],
                   middle_steps := middle_steps acc @ [message]\<rparr>
      | ToolMessage content call_id md i \<Rightarrow>
          if mentions_ids content then acc\<lparr>cleaned_messages := cleaned_messages acc @ [message]\<rparr>
          else acc\<lparr>middle_steps := middle_steps acc @ [message],
                   cleaned_messages := cleaned_messages acc @ [message]\<rparr>
      | OtherEntry r t \<Rightarrow> acc)"

definition clean_state :: "message list \<Rightarrow> message list" where
  "clean_state msgs = cleaned_messages (foldl clean_step clean_init msgs)"

definition clean_step2 :: "clean_acc \<Rightarrow> message \<Rightarrow> clean_acc" where
  "clean_step2 acc message =
     (case message of
        HumanMessage c md i \<Rightarrow>
          acc\<lparr>cleaned_messages := cleaned_messages acc @ [message], users := users acc + 1\<rparr>
      | AIMessage c tcs md i \<Rightarrow>
          if content_truthy c \<and> md \<noteq> NoMetadata then
            (if users acc = bots acc + 1 then
               acc\<lparr>cleaned_messages :=
                      filter (\<lambda>msg. msg \<notin> set (middle_steps acc)) (cleaned_messages acc @ [message]),
                    middle_steps := [],
                    bots := bots acc + 1\<rparr>
             else acc\<lparr>cleaned_messages := cleaned_messages acc @ [message], bots := bots acc + 1\<rparr>)
          else acc\<lparr>cleaned_messages := cleaned_messages acc @ [message],
                   middle_steps := middle_steps acc @ [message]\<rparr>
      | ToolMessage content call_id md i \<Rightarrow>
          acc\<lparr>middle_steps := middle_steps acc @ [message],
              cleaned_messages := cleaned_messages acc @ [message]\<rparr>
      | OtherEntry r t \<Rightarrow> acc)"

definition clean_state2 :: "message list \<Rightarrow> message list" where
  "clean_state2 msgs = cleaned_messages (foldl clean_step2 clean_init msgs)"

subsection \<open>The token-budget policy of \<^verbatim>\<open>Assistant.__call__\<close>\<close>

text \<open>\<^verbatim>\<open>message.response_metadata\<close>; an entry that is no message has none.\<close>

definition metadata_of :: "message \<Rightarrow> response_metadata option" where
  "metadata_of m =
     (case m of
        HumanMessage c md i \<Rightarrow> Some md
      | AIMessage c tcs md i \<Rightarrow> Some md
      | ToolMessage c call_id md i \<Rightarrow> Some md
      | OtherEntry r t \<Rightarrow> None)"

text \<open>The slice \<^verbatim>\<open>xs[-n:]\<close> for a positive \<open>n\<close>.\<close>

definition last_n :: "nat \<Rightarrow> 'a list \<Rightarrow> 'a list" where
  "last_n n xs = drop (length xs - n) xs"

text \<open>Lines 1293 to 1300, on the list that \<^verbatim>\<open>clean_state\<close> returned.\<close>

definition token_policy :: "message list \<Rightarrow> exn + message list" where
  "token_policy msgs =
     (if length msgs \<ge> 2 then
        (case metadata_of (msgs ! (length msgs - 2)) of
           None \<Rightarrow> Inl (AttributeError ''response_metadata'')
         | Some NoMetadata \<Rightarrow> Inr msgs
         | Some MetadataWithoutUsage \<Rightarrow> Inl (KeyError ''token_usage'')
         | Some (TokenUsage tokens) \<Rightarrow>
             if tokens < 7000 \<and> tokens > 5000 then Inr (last_n 3 msgs)
             else if tokens > 7000 then Inr (last_n 4 (clean_state2 msgs))
             else Inr msgs)
      else Inr msgs)"

text \<open>Compaction: \<^verbatim>\<open>clean_state\<close>, then the token-budget policy.\<close>

definition compact :: "message list \<Rightarrow> exn + message list" where
  "compact msgs = token_policy (clean_state msgs)"

subsection \<open>The assistant loop (\<^verbatim>\<open>Assistant.__call__\<close>)\<close>

text \<open>
  The runnable (prompt and model with the tools bound) is a parameter: what its n-th
  invocation returns on the given messages, \<open>Inl e\<close> when it raises. What it returns
  is an \<^verbatim>\<open>AIMessage\<close>.
\<close>

datatype ai_message =
  AI (ai_content: content) (ai_tool_calls: "tool_call list") (ai_metadata: response_metadata)
     (ai_id: "string option")

type_synonym runnable = "nat \<Rightarrow> message list \<Rightarrow> exn + ai_message"

definition reprompt :: message where
  "reprompt = OtherEntry ''user'' ''Respond with a real output.''"

definition apology :: ai_message where
  "apology = AI (Text ''I apologize for the inconvenience. I'm having trouble processing your request right now. Could you please try rephrasing your question or providing more details?'') [] NoMetadata None"

text \<open>
  The test for an empty response:
  \<^verbatim>\<open>not result.tool_calls and (not result.content or isinstance(result.content, list) and not result.content[0].get("text"))\<close>.
\<close>

definition empty_response :: "ai_message \<Rightarrow> bool" where
  "empty_response result =
     (ai_tool_calls result = []
      \<and> (\<not> content_truthy (ai_content result)
         \<or> (case ai_content result of
               Blocks (b # bs) \<Rightarrow> \<not> truthy (block_text b)
             | _ \<Rightarrow> False)))"

record assistant_result =
  ar_message :: ai_message
  ar_messages :: "message list"
  ar_invocations :: nat

text \<open>
  The \<^verbatim>\<open>while True\<close> loop, from its n-th invocation of the runnable on. It returns
  the one message of \<^verbatim>\<open>{"messages": result}\<close>, together with the local message list
  and the number of invocations at that moment; \<open>Inl e\<close> when an exception leaves the
  call; \<open>None\<close> when the loop runs forever.
\<close>

partial_function (option) assistant_loop ::
    "runnable \<Rightarrow> nat \<Rightarrow> message list \<Rightarrow> (exn + assistant_result) option" where
  "assistant_loop run n msgs =
     (case compact msgs of
        Inl e \<Rightarrow> Some (Inl e)
      | Inr state \<Rightarrow>
        (case run n state of
           Inl e \<Rightarrow> Some (Inr \<lparr>ar_message = apology, ar_messages = state, ar_invocations = Suc n\<rparr>)
         | Inr result \<Rightarrow>
             if empty_response result
             then assistant_loop run (Suc n) (state @ [reprompt])
             else Some (Inr \<lparr>ar_message = result,
                             ar_messages = filter (\<lambda>message. message \<noteq> reprompt) state,
                             ar_invocations = Suc n\<rparr>)))"

definition assistant_call :: "runnable \<Rightarrow> message list \<Rightarrow> (exn + assistant_result) option" where
  "assistant_call run msgs = assistant_loop run 0 msgs"

subsection \<open>Example data\<close>

text \<open>A small store and environment on which the properties below are instantiated.\<close>

definition example_smtp :: smtp_env where
  "example_smtp =
     \<lparr>env_smtp_email = None, env_smtp_password = None, env_smtp_server = None,
      env_smtp_port = Inr 587,
      smtp_connect = (\<lambda>server port. Some (Exn ''ConnectionRefusedError(111)'' ''Connection refused'')),
      smtp_starttls = None,
      smtp_login = (\<lambda>user password. None),
      smtp_send_message = (\<lambda>sender recipient subject template message. None),
      smtp_quit = None\<rparr>"

definition vehicle_without_warranty :: vehicle where
  "vehicle_without_warranty =
     \<lparr>registration = ''KA01AB0001'', model = ''Baleno'', purchase_date = ''15/06/2020'',
      current_mileage = 48000, warranty_expiry = ''15/06/2023'',
      has_extended_warranty = False, has_ccp = False, customer_id = ''102''\<rparr>"

definition vehicle_with_warranty :: vehicle where
  "vehicle_with_warranty =
     \<lparr>registration = ''MH02XX1234'', model = ''Swift'', purchase_date = ''01/01/2024'',
      current_mileage = 12000, warranty_expiry = ''01/01/2027'',
      has_extended_warranty = True, has_ccp = False, customer_id = ''101''\<rparr>"

definition example_packages :: "ccp_package list" where
  "example_packages =
     [\<lparr>package_name = ''CCP 1 Year'', duration_years = 1, max_kilometers = 40000,
       price = 3500, coverage_details = ''Water, fuel, rodent and insect damage''\<rparr>,
      \<lparr>package_name = ''CCP 2 Year'', duration_years = 2, max_kilometers = 10000,
       price = 5500, coverage_details = ''Water, fuel, rodent and insect damage''\<rparr>]"

definition example_store :: ccp_store where
  "example_store =
     \<lparr>vehicles = [vehicle_without_warranty, vehicle_with_warranty],
      warranties = [],
      ccp_packages = example_packages\<rparr>"

definition example_purchase_env :: purchase_env where
  "example_purchase_env =
     \<lparr>pe_smtp = example_smtp,
      pe_email_text = (\<lambda>new_warranty_id vehicle_info package_info.
         ''Your CCP purchase has been initiated! Warranty ID: '' @ show_int new_warranty_id)\<rparr>"

text \<open>
  A log of two closed turns and a third user message; the assistant message before the
  last entry reports a total of exactly 7000 tokens.
\<close>

definition log_at_7000 :: "message list" where
  "log_at_7000 =
     [HumanMessage (Text ''Hi'') NoMetadata None,
      AIMessage (Text ''Hello, how can I help you?'') [] (TokenUsage 1200) None,
      HumanMessage (Text ''Is my car eligible for CCP?'') NoMetadata None,
      AIMessage (Text ''Please share the registration number.'') [] (TokenUsage 7000) None,
      HumanMessage (Text ''KA01AB0001'') NoMetadata None]"

subsection \<open>Entries up to rewritten content\<close>

text \<open>
  An entry without the content that \<^verbatim>\<open>update_tool_messages\<close> may replace: two
  entries with the same image differ at most in the content of a tool message.
\<close>

definition erase_content :: "message \<Rightarrow> message" where
  "erase_content m =
     (case m of ToolMessage content call_id md i \<Rightarrow> ToolMessage [] call_id md i | _ \<Rightarrow> m)"

text \<open>\<^verbatim>\<open>isinstance(message, HumanMessage)\<close>.\<close>

definition is_human :: "message \<Rightarrow> bool" where
  "is_human m = (case m of HumanMessage c md i \<Rightarrow> True | _ \<Rightarrow> False)"

text \<open>
  A log with one tool round: the assistant's tool call and the tool's answer are
  intermediate steps of the first turn.
\<close>

definition log_with_tool_round :: "message list" where
  "log_with_tool_round =
     [HumanMessage (Text ''Which service centers are in Pune?'') NoMetadata None,
      AIMessage (Text []) [ToolCall ''get_service_centers'' [(''city'', ''Pune'')] ''call_1''] (TokenUsage 900) None,
      ToolMessage ''Found 2 service centers'' ''call_1'' NoMetadata None,
      AIMessage (Text ''There are two centers in Pune.'') [] (TokenUsage 6000) None,
      HumanMessage (Text ''Book the first one'') NoMetadata None]"

section \<open>Properties\<close>

subsection \<open>The turn driver\<close>











subsection \<open>Email notification\<close>


subsection \<open>Tool dispatcher fallback\<close>

text \<open>
  Claim C7. When the tool node raises \<open>e\<close> and the last message is an assistant
  message, the fallback returns, for each of its tool calls in order, a tool message
  with the content \<^verbatim>\<open>Error: <repr of e>\<close>, a line feed and
  \<^verbatim>\<open> please fix your mistakes.\<close>, tagged with the identifier of that call; the node
  returns these messages instead of raising.
\<close>

theorem tool_fallback_error_messages:
  assumes "tool_node state = Inl e"
    and "messages state \<noteq> []"
    and "last (messages state) = AIMessage c tool_calls md i"
  shows "create_tool_node_with_fallback tool_node state =
           Inr (map (\<lambda>tc. ToolMessage (''Error: '' @ exn_repr e @ [CHR 0x0A] @ '' please fix your mistakes.'')
                            (tc_id tc) NoMetadata None) tool_calls)"
  using assms by (simp add: create_tool_node_with_fallback_def handle_tool_error_def repr_error_def)

theorem tool_fallback_error_messages_witness:
  "create_tool_node_with_fallback (\<lambda>s. Inl (Exn ''KeyError('registration')'' ''registration''))
     \<lparr>messages = [HumanMessage (Text ''Is my car eligible?'') NoMetadata None,
                  AIMessage (Text [])
                    [ToolCall ''check_ccp_eligibility'' [(''vehicle_registration'', ''MH02XX1234'')] ''call_1'',
                     ToolCall ''show_my_vehicles'' [] ''call_2'']
                    (TokenUsage 812) None],
       error = None\<rparr>
   = Inr [ToolMessage (''Error: KeyError('registration')'' @ [CHR 0x0A] @ '' please fix your mistakes.'')
            ''call_1'' NoMetadata None,
          ToolMessage (''Error: KeyError('registration')'' @ [CHR 0x0A] @ '' please fix your mistakes.'')
            ''call_2'' NoMetadata None]"
  using tool_fallback_error_messages
    [of "\<lambda>s. Inl (Exn ''KeyError('registration')'' ''registration'')"
        "\<lparr>messages = [HumanMessage (Text ''Is my car eligible?'') NoMetadata None,
                  AIMessage (Text [])
                    [ToolCall ''check_ccp_eligibility'' [(''vehicle_registration'', ''MH02XX1234'')] ''call_1'',
                     ToolCall ''show_my_vehicles'' [] ''call_2'']
                    (TokenUsage 812) None],
       error = None\<rparr>"
        "Exn ''KeyError('registration')'' ''registration''" "Text []" _ "TokenUsage 812" None]
  by simp

subsection \<open>CCP eligibility and purchase\<close>

lemma strptime_2024_01_01: "strptime ''01/01/2024'' = Inr (DateTime 738886 0)"
  by code_simp

lemma window_end_2024_01_01: "add_days (DateTime 738886 0) 630 = Inr (DateTime 739516 0)"
  by (simp add: add_days_def)

lemma strftime_window_end: "strftime (DateTime 739516 0) = ''22/09/2025''"
  by code_simp

lemma ymd2ord_2025_11_01: "ymd2ord 2025 11 1 = 739556"
  by code_simp

lemma ymd2ord_2025_09_01: "ymd2ord 2025 9 1 = 739495"
  by code_simp

lemma datetime_of_plus_22_months: "datetime_of 2025 11 1 micros = DateTime 739556 micros"
  by (simp add: datetime_of_def ymd2ord_2025_11_01)

lemma datetime_of_plus_20_months: "datetime_of 2025 9 1 micros = DateTime 739495 micros"
  by (simp add: datetime_of_def ymd2ord_2025_09_01)

text \<open>
  Claim C4. For a vehicle row without extended warranty, \<^verbatim>\<open>check_ccp_eligibility\<close>
  answers not eligible with the extended-warranty-required reason at every current
  date. For a row with extended warranty, without CCP and bought on 01/01/2024, it
  answers not eligible with the expired-window reason on 01/11/2025 (22 months later)
  and eligible on 01/09/2025 (20 months later), at every time of those days; the window
  ends on 22/09/2025.
\<close>

theorem check_ccp_eligibility_postcondition:
  "(find (\<lambda>v. registration v = reg) (vehicles store) = Some v \<and> \<not> has_extended_warranty v
      \<longrightarrow> check_ccp_eligibility store now reg =
            NotEligible ''Extended Warranty is required before purchasing CCP. Please purchase Extended Warranty first.''
              reg (model v) None)
   \<and> (find (\<lambda>v. registration v = reg) (vehicles store) = Some v \<and> has_extended_warranty v
        \<and> \<not> has_ccp v \<and> purchase_date v = ''01/01/2024''
      \<longrightarrow> check_ccp_eligibility store (datetime_of 2025 11 1 micros) reg =
            NotEligible ''Purchase window expired. CCP must be purchased within 1 year 9 months of vehicle purchase date (01/01/2024).''
              reg (model v) (Some ''22/09/2025'')
          \<and> check_ccp_eligibility store (datetime_of 2025 9 1 micros) reg =
            Eligible reg (model v) ''01/01/2024'' (current_mileage v)
              (filter (\<lambda>package. current_mileage v < max_kilometers package) (ccp_packages store))
              ''22/09/2025'' (days_between (DateTime 739516 0) (DateTime 739495 micros)))"
proof (intro conjI impI)
  assume "find (\<lambda>v. registration v = reg) (vehicles store) = Some v \<and> \<not> has_extended_warranty v"
  then show "check_ccp_eligibility store now reg =
            NotEligible ''Extended Warranty is required before purchasing CCP. Please purchase Extended Warranty first.''
              reg (model v) None"
    by (simp add: check_ccp_eligibility_def)
next
  assume a: "find (\<lambda>v. registration v = reg) (vehicles store) = Some v \<and> has_extended_warranty v
        \<and> \<not> has_ccp v \<and> purchase_date v = ''01/01/2024''"
  then show "check_ccp_eligibility store (datetime_of 2025 11 1 micros) reg =
            NotEligible ''Purchase window expired. CCP must be purchased within 1 year 9 months of vehicle purchase date (01/01/2024).''
              reg (model v) (Some ''22/09/2025'')"
    by (simp add: check_ccp_eligibility_def strptime_2024_01_01 window_end_2024_01_01
          strftime_window_end datetime_of_plus_22_months dt_greater_def)
  from a show "check_ccp_eligibility store (datetime_of 2025 9 1 micros) reg =
            Eligible reg (model v) ''01/01/2024'' (current_mileage v)
              (filter (\<lambda>package. current_mileage v < max_kilometers package) (ccp_packages store))
              ''22/09/2025'' (days_between (DateTime 739516 0) (DateTime 739495 micros))"
    by (simp add: check_ccp_eligibility_def strptime_2024_01_01 window_end_2024_01_01
          strftime_window_end datetime_of_plus_20_months dt_greater_def)
qed

theorem check_ccp_eligibility_postcondition_witness:
  "check_ccp_eligibility example_store (datetime_of 2024 3 1 0) ''KA01AB0001'' =
     NotEligible ''Extended Warranty is required before purchasing CCP. Please purchase Extended Warranty first.''
       ''KA01AB0001'' ''Baleno'' None
   \<and> check_ccp_eligibility example_store (datetime_of 2025 11 1 0) ''MH02XX1234'' =
       NotEligible ''Purchase window expired. CCP must be purchased within 1 year 9 months of vehicle purchase date (01/01/2024).''
         ''MH02XX1234'' ''Swift'' (Some ''22/09/2025'')
   \<and> check_ccp_eligibility example_store (datetime_of 2025 9 1 0) ''MH02XX1234'' =
       Eligible ''MH02XX1234'' ''Swift'' ''01/01/2024'' 12000 [hd example_packages] ''22/09/2025'' 21"
  using check_ccp_eligibility_postcondition
      [where reg = "''KA01AB0001''" and store = example_store and v = vehicle_without_warranty
         and now = "datetime_of 2024 3 1 0"]
    check_ccp_eligibility_postcondition
      [where reg = "''MH02XX1234''" and store = example_store and v = vehicle_with_warranty
         and micros = 0]
  by (simp add: example_store_def vehicle_without_warranty_def vehicle_with_warranty_def
        example_packages_def days_between_def)

lemma find_Some_holds: "find P xs = Some x \<Longrightarrow> P x"
  by (induction xs) (auto split: if_splits)

lemma find_Some_mem: "find P xs = Some x \<Longrightarrow> x \<in> set xs"
  by (induction xs) (auto split: if_splits)

lemma find_map_update:
  assumes "find P xs = Some x" and "\<And>y. P (f y) = P y"
  shows "find P (map f xs) = Some (f x)"
  using assms by (induction xs) (auto split: if_splits)

lemma map_update_all:
  assumes "\<And>y. Q (f y)"
  shows "\<forall>v \<in> set (map (\<lambda>v. if P v then f v else v) xs). P v \<longrightarrow> Q v"
  using assms by auto

lemma purchase_success_D:
  assumes "purchase_ccp_package env store reg pkg email = (PurchaseSuccess resp, store')"
  shows "\<exists>v w. find (\<lambda>v. registration v = reg) (vehicles store) = Some v
           \<and> has_extended_warranty v
           \<and> vehicles store' = map (\<lambda>v. if registration v = reg then v\<lparr>has_ccp := True\<rparr> else v) (vehicles store)
           \<and> warranties store' = warranties store @ [w]
           \<and> warranty_id w = pr_warranty_id resp
           \<and> w_vehicle_registration w = reg
           \<and> w_status w = ''pending_payment''"
proof (cases "find (\<lambda>v. registration v = reg) (vehicles store)")
  case None
  with assms show ?thesis by (simp add: purchase_ccp_package_def)
next
  case (Some v)
  note v = Some
  show ?thesis
  proof (cases "has_extended_warranty v \<and> \<not> has_ccp v")
    case False
    then consider "\<not> has_extended_warranty v" | "has_extended_warranty v" "has_ccp v" by blast
    then show ?thesis
    proof cases
      case 1
      with assms v show ?thesis by (simp add: purchase_ccp_package_def)
    next
      case 2
      with assms v show ?thesis by (simp add: purchase_ccp_package_def)
    qed
  next
    case True
    note flags = True
    show ?thesis
    proof (cases "package_map pkg")
      case None
      with assms v flags show ?thesis by (simp add: purchase_ccp_package_def)
    next
      case (Some years)
      note years = Some
      show ?thesis
      proof (cases "find (\<lambda>p. duration_years p = years) (ccp_packages store)")
        case None
        with assms v flags years show ?thesis by (simp add: purchase_ccp_package_def)
      next
        case (Some package_info)
        note package_info = Some
        show ?thesis
        proof (cases "strptime (warranty_expiry v)")
          case (Inl e)
          with assms v flags years package_info show ?thesis
            by (simp add: purchase_ccp_package_def)
        next
          case (Inr warranty_start)
          note warranty_start = Inr
          show ?thesis
          proof (cases "add_days warranty_start (duration_years package_info * 365)")
            case (Inl e)
            with assms v flags years package_info warranty_start show ?thesis
              by (simp add: purchase_ccp_package_def)
          next
            case (Inr warranty_end)
            with assms v flags years package_info warranty_start
            have "resp = \<lparr>pr_warranty_id = next_id (map warranty_id (warranties store)),
                      pr_vehicle_registration = reg, pr_model = model v,
                      pr_package = package_name package_info, pr_status = ''Pending Payment'',
                      pr_payment_link = ''https://carwarranty.com/payment/''
                         @ show_int (next_id (map warranty_id (warranties store))),
                      pr_confirmation_email = email,
                      pr_email_sent = (case (if email \<noteq> [] then
                           Some (send_email_notification (pe_smtp env) email
                             (''CCP Purchase Confirmation - Warranty ID ''
                                @ show_int (next_id (map warranty_id (warranties store))))
                             (pe_email_text env (next_id (map warranty_id (warranties store))) v package_info)
                             ''purchase_confirmation'')
                         else None) of Some r \<Rightarrow> er_success r | None \<Rightarrow> False),
                      pr_email_status = (case (if email \<noteq> [] then
                           Some (send_email_notification (pe_smtp env) email
                             (''CCP Purchase Confirmation - Warranty ID ''
                                @ show_int (next_id (map warranty_id (warranties store))))
                             (pe_email_text env (next_id (map warranty_id (warranties store))) v package_info)
                             ''purchase_confirmation'')
                         else None) of Some r \<Rightarrow> er_message r
                                       | None \<Rightarrow> ''Email not sent (no email provided)'')\<rparr>"
              and "store' = store\<lparr>
                      warranties := warranties store @
                        [\<lparr>warranty_id = next_id (map warranty_id (warranties store)),
                          w_vehicle_registration = reg, w_warranty_type = ''ccp'',
                          w_package_type = pkg, w_start_date = strftime warranty_start,
                          w_end_date = strftime warranty_end, w_status = ''pending_payment'',
                          w_price = price package_info,
                          w_coverage_km = max_kilometers package_info\<rparr>],
                      vehicles := map (\<lambda>v. if registration v = reg then v\<lparr>has_ccp := True\<rparr> else v)
                                    (vehicles store)\<rparr>"
              by (simp_all add: purchase_ccp_package_def Let_def)
            with v flags show ?thesis by simp
          qed
        qed
      qed
    qed
  qed
qed

text \<open>
  Claim C10. A successful \<^verbatim>\<open>purchase_ccp_package\<close> appends a warranty row with status
  \<^verbatim>\<open>pending_payment\<close> and at once sets \<^verbatim>\<open>has_ccp\<close> on the vehicle; on the store it
  leaves, every eligibility check and every further purchase for that registration
  answers with the reason \<^verbatim>\<open>Vehicle already has an active CCP package.\<close>, whatever the
  date, package or e-mail, although no payment was made.
\<close>

theorem purchase_blocks_before_payment:
  assumes "purchase_ccp_package env store reg pkg email = (PurchaseSuccess resp, store')"
  shows "(\<exists>w \<in> set (warranties store'). warranty_id w = pr_warranty_id resp
            \<and> w_vehicle_registration w = reg \<and> w_status w = ''pending_payment'')
       \<and> (\<forall>v \<in> set (vehicles store'). registration v = reg \<longrightarrow> has_ccp v)
       \<and> (\<exists>m. check_ccp_eligibility store' now reg =
                 NotEligible ''Vehicle already has an active CCP package.'' reg m None)
       \<and> purchase_ccp_package env' store' reg pkg' email' =
           (PurchaseError ''Vehicle already has an active CCP package.'', store')"
proof -
  from purchase_success_D [OF assms]
  obtain v where "\<exists>w. find (\<lambda>v. registration v = reg) (vehicles store) = Some v
           \<and> has_extended_warranty v
           \<and> vehicles store' = map (\<lambda>v. if registration v = reg then v\<lparr>has_ccp := True\<rparr> else v) (vehicles store)
           \<and> warranties store' = warranties store @ [w]
           \<and> warranty_id w = pr_warranty_id resp
           \<and> w_vehicle_registration w = reg
           \<and> w_status w = ''pending_payment''" ..
  then obtain w where vw: "find (\<lambda>v. registration v = reg) (vehicles store) = Some v
           \<and> has_extended_warranty v
           \<and> vehicles store' = map (\<lambda>v. if registration v = reg then v\<lparr>has_ccp := True\<rparr> else v) (vehicles store)
           \<and> warranties store' = warranties store @ [w]
           \<and> warranty_id w = pr_warranty_id resp
           \<and> w_vehicle_registration w = reg
           \<and> w_status w = ''pending_payment''" ..
  note v = vw [THEN conjunct1]
  note ew = vw [THEN conjunct2, THEN conjunct1]
  note vs = vw [THEN conjunct2, THEN conjunct2, THEN conjunct1]
  note w = vw [THEN conjunct2, THEN conjunct2, THEN conjunct2]
  from v have reg_v: "registration v = reg"
    by (rule find_Some_holds)
  have "find (\<lambda>v. registration v = reg)
          (map (\<lambda>v. if registration v = reg then v\<lparr>has_ccp := True\<rparr> else v) (vehicles store))
        = Some ((\<lambda>v. if registration v = reg then v\<lparr>has_ccp := True\<rparr> else v) v)"
    by (rule find_map_update [OF v]) simp
  with vs reg_v have found: "find (\<lambda>v. registration v = reg) (vehicles store') = Some (v\<lparr>has_ccp := True\<rparr>)"
    by simp
  have 1: "\<exists>w \<in> set (warranties store'). warranty_id w = pr_warranty_id resp
            \<and> w_vehicle_registration w = reg \<and> w_status w = ''pending_payment''"
    using w by auto
  have 2: "\<forall>v \<in> set (vehicles store'). registration v = reg \<longrightarrow> has_ccp v"
    unfolding vs
    by (rule map_update_all [where Q = has_ccp and f = "\<lambda>v. v\<lparr>has_ccp := True\<rparr>"
          and P = "\<lambda>v. registration v = reg"]) simp
  have 3: "\<exists>m. check_ccp_eligibility store' now reg =
                 NotEligible ''Vehicle already has an active CCP package.'' reg m None"
    using found ew by (simp add: check_ccp_eligibility_def)
  have 4: "purchase_ccp_package env' store' reg pkg' email' =
           (PurchaseError ''Vehicle already has an active CCP package.'', store')"
    using found ew by (simp add: purchase_ccp_package_def)
  show ?thesis by (rule conjI [OF 1 conjI [OF 2 conjI [OF 3 4]]])
qed

lemma strptime_2027_01_01: "strptime ''01/01/2027'' = Inr (DateTime 739982 0)"
  by code_simp

lemma strftime_2027_01_01: "strftime (DateTime 739982 0) = ''01/01/2027''"
  by code_simp

lemma strftime_2028_01_01: "strftime (DateTime 740347 0) = ''01/01/2028''"
  by code_simp

lemma example_purchase:
  "purchase_ccp_package example_purchase_env example_store ''MH02XX1234'' ''1year'' [] =
     (PurchaseSuccess \<lparr>pr_warranty_id = 1, pr_vehicle_registration = ''MH02XX1234'',
        pr_model = ''Swift'', pr_package = ''CCP 1 Year'', pr_status = ''Pending Payment'',
        pr_payment_link = ''https://carwarranty.com/payment/1'', pr_confirmation_email = [],
        pr_email_sent = False, pr_email_status = ''Email not sent (no email provided)''\<rparr>,
      \<lparr>vehicles = [vehicle_without_warranty, vehicle_with_warranty\<lparr>has_ccp := True\<rparr>],
       warranties = [\<lparr>warranty_id = 1, w_vehicle_registration = ''MH02XX1234'',
          w_warranty_type = ''ccp'', w_package_type = ''1year'', w_start_date = ''01/01/2027'',
          w_end_date = ''01/01/2028'', w_status = ''pending_payment'', w_price = 3500,
          w_coverage_km = 40000\<rparr>],
       ccp_packages = example_packages\<rparr>)"
  by (simp add: purchase_ccp_package_def example_store_def vehicle_without_warranty_def
        vehicle_with_warranty_def example_packages_def package_map_def strptime_2027_01_01
        add_days_def strftime_2027_01_01 strftime_2028_01_01 next_id_def show_int_def
        digit_char_def)

theorem purchase_blocks_before_payment_witness:
  "check_ccp_eligibility
     \<lparr>vehicles = [vehicle_without_warranty, vehicle_with_warranty\<lparr>has_ccp := True\<rparr>],
      warranties = [\<lparr>warranty_id = 1, w_vehicle_registration = ''MH02XX1234'',
         w_warranty_type = ''ccp'', w_package_type = ''1year'', w_start_date = ''01/01/2027'',
         w_end_date = ''01/01/2028'', w_status = ''pending_payment'', w_price = 3500,
         w_coverage_km = 40000\<rparr>],
      ccp_packages = example_packages\<rparr>
     (datetime_of 2024 3 1 0) ''MH02XX1234''
   = NotEligible ''Vehicle already has an active CCP package.'' ''MH02XX1234'' ''Swift'' None
   \<and> fst (purchase_ccp_package example_purchase_env
       \<lparr>vehicles = [vehicle_without_warranty, vehicle_with_warranty\<lparr>has_ccp := True\<rparr>],
        warranties = [\<lparr>warranty_id = 1, w_vehicle_registration = ''MH02XX1234'',
           w_warranty_type = ''ccp'', w_package_type = ''1year'', w_start_date = ''01/01/2027'',
           w_end_date = ''01/01/2028'', w_status = ''pending_payment'', w_price = 3500,
           w_coverage_km = 40000\<rparr>],
        ccp_packages = example_packages\<rparr>
       ''MH02XX1234'' ''2year'' ''owner@example.com'')
     = PurchaseError ''Vehicle already has an active CCP package.''"
  using purchase_blocks_before_payment [OF example_purchase, where now = "datetime_of 2024 3 1 0"
      and env' = example_purchase_env and pkg' = "''2year''" and email' = "''owner@example.com''"]
  by (auto simp: check_ccp_eligibility_def vehicle_without_warranty_def vehicle_with_warranty_def)

subsection \<open>The token-budget policy\<close>

lemma clean_state_log_at_7000: "clean_state log_at_7000 = log_at_7000"
  by (simp add: clean_state_def clean_step_def clean_init_def log_at_7000_def content_truthy_def
        rewrite_step_def)

lemma token_policy_cases:
  assumes "2 \<le> length msgs"
    and "metadata_of (msgs ! (length msgs - 2)) = Some (TokenUsage tokens)"
  shows "token_policy msgs =
           Inr (if 5000 < tokens \<and> tokens < 7000 then last_n 3 msgs
                else if 7000 < tokens then last_n 4 (clean_state2 msgs)
                else msgs)"
  using assms by (simp add: token_policy_def)

text \<open>
  Claim C1. On the log \<^const>\<open>log_at_7000\<close>, which classification leaves as it is and
  whose second-to-last message reports a usage of exactly 7000 tokens, compaction
  returns all five messages: a usage of 7000 is in neither branch of the source
  (\<^verbatim>\<open>tokens < 7000 and tokens > 5000\<close>, \<^verbatim>\<open>tokens > 7000\<close>), so the log is not cut
  to its last three messages.
\<close>

theorem token_policy_at_7000:
  "clean_state log_at_7000 = log_at_7000
   \<and> metadata_of (log_at_7000 ! (length log_at_7000 - 2)) = Some (TokenUsage 7000)
   \<and> compact log_at_7000 = Inr log_at_7000
   \<and> length log_at_7000 = 5
   \<and> length (last_n 3 log_at_7000) = 3"
proof -
  have 1: "clean_state log_at_7000 = log_at_7000" by (rule clean_state_log_at_7000)
  have 2: "metadata_of (log_at_7000 ! (length log_at_7000 - 2)) = Some (TokenUsage 7000)"
    by (simp add: log_at_7000_def metadata_of_def)
  have 3: "length log_at_7000 = 5" by (simp add: log_at_7000_def)
  have "token_policy log_at_7000 = Inr log_at_7000"
    using token_policy_cases [OF _ 2] 3 by simp
  then have 4: "compact log_at_7000 = Inr log_at_7000"
    by (simp add: compact_def 1)
  have 5: "length (last_n 3 log_at_7000) = 3" by (simp add: last_n_def 3)
  from 1 2 4 3 5 show ?thesis by simp
qed

subsection \<open>Compaction keeps the order\<close>

lemma erase_update_tool_messages: "erase_content (update_tool_messages m) = erase_content m"
  by (cases m) (simp_all add: erase_content_def update_tool_messages_def)

lemma erase_rewrite_step: "erase_content (rewrite_step m) = erase_content m"
  by (cases m) (auto simp: rewrite_step_def erase_update_tool_messages)

lemma map_erase_rewrite_step: "map erase_content (map rewrite_step xs) = map erase_content xs"
  by (simp add: erase_rewrite_step)

lemma subseq_erase_filter_rewrite:
  "subseq (map erase_content (filter P (map rewrite_step xs))) (map erase_content xs)"
proof -
  have "subseq (map erase_content (filter P (map rewrite_step xs)))
          (map erase_content (map rewrite_step xs))"
    by (rule subseq_map) simp
  then show ?thesis by (simp only: map_erase_rewrite_step)
qed

lemma subseq_snoc: "subseq xs (xs @ [y])"
  by (rule list_emb_prefix) simp

lemma clean_step_subseq:
  "subseq (map erase_content (cleaned_messages (clean_step acc m)))
     (map erase_content (cleaned_messages acc @ [m]))"
proof (cases m)
  case (AIMessage c tcs md i)
  show ?thesis
    using subseq_erase_filter_rewrite
      [of "\<lambda>msg. msg \<notin> set (middle_steps acc)" "cleaned_messages acc @ [m]"]
    by (simp add: clean_step_def AIMessage del: filter_append map_append)
qed (simp_all add: clean_step_def subseq_snoc)

lemma clean_step2_subseq:
  "subseq (map erase_content (cleaned_messages (clean_step2 acc m)))
     (map erase_content (cleaned_messages acc @ [m]))"
proof (cases m)
  case (AIMessage c tcs md i)
  have "subseq (map erase_content (filter (\<lambda>msg. msg \<notin> set (middle_steps acc)) (cleaned_messages acc @ [m])))
          (map erase_content (cleaned_messages acc @ [m]))"
    by (rule subseq_map) (rule subseq_filter_left)
  then show ?thesis
    by (simp add: clean_step2_def AIMessage del: filter_append map_append)
qed (simp_all add: clean_step2_def subseq_snoc)

lemma foldl_step_subseq:
  assumes step: "\<And>acc m. subseq (map erase_content (cleaned_messages (f acc m)))
                   (map erase_content (cleaned_messages acc @ [m]))"
    and "subseq (map erase_content (cleaned_messages acc)) (map erase_content pre)"
  shows "subseq (map erase_content (cleaned_messages (foldl f acc xs)))
           (map erase_content (pre @ xs))"
  using assms(2)
proof (induction xs arbitrary: acc pre)
  case Nil
  then show ?case by simp
next
  case (Cons x xs)
  have "subseq (map erase_content (cleaned_messages acc @ [x])) (map erase_content (pre @ [x]))"
    using Cons.prems by (simp add: subseq_append)
  with step [of acc x]
  have "subseq (map erase_content (cleaned_messages (f acc x))) (map erase_content (pre @ [x]))"
    by (rule subseq_order.trans)
  from Cons.IH [OF this] show ?case by simp
qed

lemma clean_state_subseq: "subseq (map erase_content (clean_state msgs)) (map erase_content msgs)"
  using foldl_step_subseq [of clean_step clean_init "[]" msgs, OF clean_step_subseq]
  by (simp add: clean_state_def clean_init_def)

lemma clean_state2_subseq: "subseq (map erase_content (clean_state2 msgs)) (map erase_content msgs)"
  using foldl_step_subseq [of clean_step2 clean_init "[]" msgs, OF clean_step2_subseq]
  by (simp add: clean_state2_def clean_init_def)

lemma last_n_subseq: "subseq (map erase_content (last_n n xs)) (map erase_content xs)"
  unfolding last_n_def by (rule subseq_map) (rule suffix_imp_subseq, rule suffix_drop)

lemma token_policy_subseq:
  assumes "token_policy msgs = Inr out"
  shows "subseq (map erase_content out) (map erase_content msgs)"
proof -
  have 4: "subseq (map erase_content (last_n 4 (clean_state2 msgs))) (map erase_content msgs)"
    using last_n_subseq [of 4 "clean_state2 msgs"] clean_state2_subseq [of msgs]
    by (rule subseq_order.trans)
  from assms 4 last_n_subseq [of 3 msgs] show ?thesis
    by (auto simp: token_policy_def
          split: if_splits option.splits response_metadata.splits)
qed

lemma is_human_erase: "is_human (erase_content m) = is_human m"
  by (cases m) (simp_all add: is_human_def erase_content_def)

lemma subseq_filter_length:
  assumes "subseq xs ys"
  shows "length (filter P xs) \<le> length (filter P ys)"
  using subseq_filter [OF assms, of P] by (rule list_emb_length)

lemma humans_erase: "length (filter is_human (map erase_content xs)) = length (filter is_human xs)"
  by (induction xs) (simp_all add: is_human_erase)

text \<open>
  Claim C6. Whenever compaction (\<^verbatim>\<open>clean_state\<close> followed by the token-budget
  policy) returns a log, that log, read up to the content of tool messages, is a
  subsequence of the log before compaction: entries are removed or have their content
  rewritten, never reordered. It holds at most as many user messages as the log
  before.
\<close>

theorem compact_keeps_order:
  assumes "compact msgs = Inr out"
  shows "subseq (map erase_content out) (map erase_content msgs)
       \<and> length (filter is_human out) \<le> length (filter is_human msgs)"
proof -
  from assms have "subseq (map erase_content out) (map erase_content (clean_state msgs))"
    unfolding compact_def by (rule token_policy_subseq)
  then have s: "subseq (map erase_content out) (map erase_content msgs)"
    using clean_state_subseq [of msgs] by (rule subseq_order.trans)
  from subseq_filter_length [OF s, of is_human]
  have "length (filter is_human out) \<le> length (filter is_human msgs)"
    by (simp only: humans_erase)
  with s show ?thesis by simp
qed

lemma compact_log_with_tool_round:
  "compact log_with_tool_round =
     Inr [HumanMessage (Text ''Which service centers are in Pune?'') NoMetadata None,
          AIMessage (Text ''There are two centers in Pune.'') [] (TokenUsage 6000) None,
          HumanMessage (Text ''Book the first one'') NoMetadata None]"
  by (simp add: compact_def clean_state_def clean_step_def clean_init_def log_with_tool_round_def
        content_truthy_def rewrite_step_def mentions_ids_def token_policy_def metadata_of_def
        last_n_def)

theorem compact_keeps_order_witness:
  "compact log_with_tool_round =
     Inr [HumanMessage (Text ''Which service centers are in Pune?'') NoMetadata None,
          AIMessage (Text ''There are two centers in Pune.'') [] (TokenUsage 6000) None,
          HumanMessage (Text ''Book the first one'') NoMetadata None]
   \<and> subseq
       (map erase_content
          [HumanMessage (Text ''Which service centers are in Pune?'') NoMetadata None,
           AIMessage (Text ''There are two centers in Pune.'') [] (TokenUsage 6000) None,
           HumanMessage (Text ''Book the first one'') NoMetadata None])
       (map erase_content log_with_tool_round)
   \<and> length (filter is_human
         [HumanMessage (Text ''Which service centers are in Pune?'') NoMetadata None,
          AIMessage (Text ''There are two centers in Pune.'') [] (TokenUsage 6000) None,
          HumanMessage (Text ''Book the first one'') NoMetadata None])
       \<le> length (filter is_human log_with_tool_round)"
  using compact_log_with_tool_round compact_keeps_order [OF compact_log_with_tool_round]
  by (rule conjI)

end
